theory Spec2Isabelle
  imports Main "HOL-Library.Word"
begin

section \<open>Shared vocabulary\<close>

text \<open>
  A Go \<open>error\<close> value. \<open>New s\<close> is an error whose message is \<open>s\<close> (built by
  \<open>fmt.Errorf\<close> without \<open>%w\<close>, or handed back by a collaborator);
  \<open>Wrapped prefix e\<close> is \<open>fmt.Errorf(prefix + "%w", e)\<close>. The nil error is \<open>None\<close>
  of \<open>error option\<close>.
\<close>

datatype error = New string | Wrapped string error

text \<open>\<open>err.Error()\<close>, which is also what the verb \<open>%v\<close> prints.\<close>

fun Error :: "error \<Rightarrow> string" where
  "Error (New s) = s"
| "Error (Wrapped prefix e) = prefix @ Error e"

text \<open>A Go call either returns or panics.\<close>

datatype 'a outcome = Return 'a | Panic string

text \<open>A single-quoted argument of a format string, \<open>'%s'\<close>.\<close>

definition quoted :: "string \<Rightarrow> string" where
  "quoted s = [CHR 0x27] @ s @ [CHR 0x27]"

section \<open>The workload processor (package workflowrun)\<close>

subsection \<open>Data\<close>

text \<open>
  Modelled from the spec: the type \<open>v1alpha1.StatusPhase\<close> is declared outside the
  given sources; the spec lists its values as Waiting, Running, Pending, Failed and
  Succeeded.
\<close>

datatype StatusPhase =
  StatusWaiting | StatusRunning | StatusPending | StatusFailed | StatusSucceeded

text \<open>
  Modelled from the spec: \<open>util.IsPhaseTerminated\<close> is defined outside the given
  sources; the spec names Failed and Succeeded as the terminal phases.
\<close>

fun IsPhaseTerminated :: "StatusPhase \<Rightarrow> bool" where
  "IsPhaseTerminated StatusFailed = True"
| "IsPhaseTerminated StatusSucceeded = True"
| "IsPhaseTerminated _ = False"

type_synonym Time = nat

record Status =
  Phase :: StatusPhase
  Reason :: string
  LastTransitionTime :: Time
  Message :: string

record PodInfo =
  pi_Name :: string
  pi_Namespace :: string

record StageStatus =
  stage_Status :: Status
  stage_Pod :: "PodInfo option"

record WorkflowRunStatus =
  Stages :: "string \<rightharpoonup> StageStatus"

record WorkflowRun =
  wfr_Name :: string
  wfr_Namespace :: string
  wfr_Status :: WorkflowRunStatus

record Workflow =
  wf_Name :: string

text \<open>The processor only tests the pod workload for nil; its contents go to the builder.\<close>

datatype PodWorkload = PodWorkload

record DelegationWorkload =
  URL :: string

record StageSpec =
  Pod :: "PodWorkload option"
  Delegation :: "DelegationWorkload option"

record Stage =
  stg_Name :: string
  stg_Namespace :: string
  stg_Spec :: StageSpec

text \<open>The pod object handed to and returned by the cluster.\<close>

record corev1_Pod =
  po_Name :: string
  po_Namespace :: string

text \<open>\<open>delegation.Request\<close>.\<close>

record Request =
  req_Stage :: Stage
  req_Workflow :: Workflow
  req_WorkflowRun :: WorkflowRun

record WorkloadProcessor =
  wf_p :: Workflow
  wfr :: WorkflowRun
  stg :: Stage

datatype EventType = EventTypeNormal | EventTypeWarning

text \<open>
  What one call of \<open>Process\<close> does to its collaborators, in program order: the calls
  on the pod builder, the cluster, the delegate and the WorkflowRun client, the events
  given to the recorder (type, reason, message), the writes asked of the operator, and
  the \<open>go\<close> statement that starts the pod event watcher (stage, namespace, pod name).
\<close>

datatype effect =
    Build Workflow WorkflowRun Stage
  | PodsCreate corev1_Pod
  | Delegate Request
  | WorkflowRunsGet string string
  | Eventf EventType string string
  | UpdateStageStatus string Status
  | UpdateStagePodInfo string PodInfo
  | GoWatcherWork string string string

text \<open>
  What the collaborators answer during one call of \<open>Process\<close>. None of them is in
  the given sources: the pod builder, the cluster's pod API (in the namespace of
  \<open>pod.GetExecutionContext(p.wfr)\<close>), the quota test \<open>isExceededQuotaError\<close>, the
  delegate, the WorkflowRun client, the clock (each path reads it once), and the two
  operator writes, each of which returns an error or nil.
\<close>

record world =
  builderBuild :: "Workflow \<Rightarrow> WorkflowRun \<Rightarrow> Stage \<Rightarrow> error + corev1_Pod"
  podsCreate :: "corev1_Pod \<Rightarrow> error + corev1_Pod"
  isExceededQuotaError :: "error \<Rightarrow> bool"
  delegate :: "Request \<Rightarrow> error option"
  workflowRunsGet :: "string \<Rightarrow> string \<Rightarrow> error + WorkflowRun"
  timeNow :: Time
  operUpdateStageStatus :: "string \<Rightarrow> Status \<Rightarrow> error option"
  operUpdateStagePodInfo :: "string \<Rightarrow> PodInfo \<Rightarrow> error option"

subsection \<open>processPod\<close>

definition processPod :: "world \<Rightarrow> WorkloadProcessor \<Rightarrow> effect list \<times> error option outcome" where
  "processPod w p =
    (case builderBuild w (wf_p p) (wfr p) (stg p) of
       Inl err \<Rightarrow>
         (let st = \<lparr>Phase = StatusFailed, Reason = ''GeneratePodError'',
                    LastTransitionTime = timeNow w,
                    Message = ''Failed to generate pod: '' @ Error err\<rparr>;
              _ = operUpdateStageStatus w (stg_Name (stg p)) st
          in ([Build (wf_p p) (wfr p) (stg p),
               Eventf EventTypeWarning ''GeneratePodSpecError''
                 (''Generate pod for stage '' @ quoted (stg_Name (stg p)) @ '' error: '' @ Error err),
               UpdateStageStatus (stg_Name (stg p)) st],
              Return (Some (Wrapped ''create pod manifest: '' err))))
     | Inr po0 \<Rightarrow>
         (case podsCreate w po0 of
            Inl err \<Rightarrow>
              (let phase = (if isExceededQuotaError w err then StatusPending else StatusFailed);
                   st = \<lparr>Phase = phase, Reason = ''CreatePodError'',
                         LastTransitionTime = timeNow w,
                         Message = ''Failed to create pod: '' @ Error err\<rparr>;
                   _ = operUpdateStageStatus w (stg_Name (stg p)) st
               in ([Build (wf_p p) (wfr p) (stg p),
                    PodsCreate po0,
                    Eventf EventTypeWarning ''StagePodCreated''
                      (''Create pod for stage '' @ quoted (stg_Name (stg p)) @ '' error: '' @ Error err),
                    UpdateStageStatus (stg_Name (stg p)) st],
                   Return (Some (Wrapped ''create pod: '' err))))
          | Inr po \<Rightarrow>
              (let st = \<lparr>Phase = StatusRunning, Reason = ''StagePodCreated'',
                         LastTransitionTime = timeNow w, Message = ''''\<rparr>;
                   _ = operUpdateStageStatus w (stg_Name (stg p)) st;
                   info = \<lparr>pi_Name = po_Name po, pi_Namespace = po_Namespace po\<rparr>;
                   _ = operUpdateStagePodInfo w (stg_Name (stg p)) info
               in ([Build (wf_p p) (wfr p) (stg p),
                    PodsCreate po0,
                    Eventf EventTypeNormal ''StagePodCreated''
                      (''Create pod for stage '' @ quoted (stg_Name (stg p)) @ '' succeeded''),
                    GoWatcherWork (stg_Name (stg p)) (po_Namespace po) (po_Name po),
                    UpdateStageStatus (stg_Name (stg p)) st,
                    UpdateStagePodInfo (stg_Name (stg p)) info],
                   Return None))))"

subsection \<open>processDelegation\<close>

text \<open>
  \<open>p.stg.Spec.Delegation.URL\<close> is read when the arguments of the first \<open>Eventf\<close> are
  evaluated, after \<open>delegation.Delegate\<close> has returned; on a nil \<open>Delegation\<close> that
  read is a nil-pointer panic.
\<close>

definition processDelegation :: "world \<Rightarrow> WorkloadProcessor \<Rightarrow> effect list \<times> error option outcome" where
  "processDelegation w p =
    (let req = \<lparr>req_Stage = stg p, req_Workflow = wf_p p, req_WorkflowRun = wfr p\<rparr>
     in case Delegation (stg_Spec (stg p)) of
          None \<Rightarrow> ([Delegate req], Panic ''nil pointer dereference'')
        | Some d \<Rightarrow>
           (case delegate w req of
              Some err \<Rightarrow>
                (let st = \<lparr>Phase = StatusFailed, Reason = ''DelegationFailure'',
                           LastTransitionTime = timeNow w,
                           Message = ''Delegate error: '' @ Error err\<rparr>;
                     _ = operUpdateStageStatus w (stg_Name (stg p)) st
                 in ([Delegate req,
                      Eventf EventTypeWarning ''DelegationFailure''
                        (''Delegate stage '' @ stg_Name (stg p) @ '' to '' @ URL d @ '' error: '' @ Error err),
                      UpdateStageStatus (stg_Name (stg p)) st],
                     Return (Some err)))
            | None \<Rightarrow>
                (let pre = [Delegate req,
                            Eventf EventTypeNormal ''DelegationSucceed''
                              (''Delegate stage '' @ stg_Name (stg p) @ '' to '' @ URL d @ '' succeeded''),
                            WorkflowRunsGet (wfr_Namespace (wfr p)) (wfr_Name (wfr p))]
                 in case workflowRunsGet w (wfr_Namespace (wfr p)) (wfr_Name (wfr p)) of
                      Inl err \<Rightarrow> (pre, Return (Some err))
                    | Inr latestWfr \<Rightarrow>
                        (if (case Stages (wfr_Status latestWfr) (stg_Name (stg p)) of
                               Some s \<Rightarrow> IsPhaseTerminated (Phase (stage_Status s))
                             | None \<Rightarrow> False)
                         then (pre, Return None)
                         else
                           (let st = \<lparr>Phase = StatusWaiting, Reason = ''DelegationSucceed'',
                                      LastTransitionTime = timeNow w, Message = ''''\<rparr>;
                                _ = operUpdateStageStatus w (stg_Name (stg p)) st
                            in (pre @ [UpdateStageStatus (stg_Name (stg p)) st], Return None))))))"

subsection \<open>Process\<close>

definition Process :: "world \<Rightarrow> WorkloadProcessor \<Rightarrow> effect list \<times> error option outcome" where
  "Process w p =
    (if Pod (stg_Spec (stg p)) \<noteq> None \<and> Delegation (stg_Spec (stg p)) \<noteq> None then
       ([], Return (Some (New (''exact 1 workload (pod or delegation) expected in stage ''
              @ quoted (stg_Namespace (stg p) @ ''/'' @ stg_Name (stg p)) @ '', but got both''))))
     else if Pod (stg_Spec (stg p)) = None \<and> Delegation (stg_Spec (stg p)) = None then
       ([], Return (Some (New (''exact 1 workload (pod or delegation) expected in stage ''
              @ quoted (stg_Namespace (stg p) @ ''/'' @ stg_Name (stg p)) @ '', but got none''))))
     else if Pod (stg_Spec (stg p)) \<noteq> None then processPod w p
     else if Delegation (stg_Spec (stg p)) \<noteq> None then processDelegation w p
     else ([], Return None))"

text \<open>Readings of a trace.\<close>

fun statusWrites :: "effect list \<Rightarrow> (string \<times> Status) list" where
  "statusWrites [] = []"
| "statusWrites (UpdateStageStatus n s # es) = (n, s) # statusWrites es"
| "statusWrites (_ # es) = statusWrites es"

fun podInfoWrites :: "effect list \<Rightarrow> (string \<times> PodInfo) list" where
  "podInfoWrites [] = []"
| "podInfoWrites (UpdateStagePodInfo n i # es) = (n, i) # podInfoWrites es"
| "podInfoWrites (_ # es) = podInfoWrites es"

fun events :: "effect list \<Rightarrow> (EventType \<times> string) list" where
  "events [] = []"
| "events (Eventf t r m # es) = (t, r) # events es"
| "events (_ # es) = events es"

section \<open>Controller configuration (package controller)\<close>

type_synonym int64 = "64 word"

definition ConfigFileKey :: string where
  "ConfigFileKey = ''workflow-controller.json''"

definition GitResolverImage :: string where
  "GitResolverImage = ''git-resolver''"

definition ImageResolverImage :: string where
  "ImageResolverImage = ''image-resolver''"

definition KvResolverImage :: string where
  "KvResolverImage = ''kv-resolver''"

definition CoordinatorImage :: string where
  "CoordinatorImage = ''coordinator''"

definition GCImage :: string where
  "GCImage = ''gc''"

record LoggingConfig =
  Level :: string

record GCConfig =
  Enabled :: bool
  DelaySeconds :: int64
  RetryCount :: int64

record LimitsConfig =
  MaxWorkflowRuns :: int64

text \<open>
  \<open>corev1.ResourceRequirements\<close> is a Kubernetes type the loader never looks into; it
  is the type parameter \<open>'r\<close>. A nil map and an empty map answer every lookup alike,
  so \<open>Images\<close> is a partial map.
\<close>

record 'r WorkflowControllerConfig =
  Images :: "string \<rightharpoonup> string"
  Logging :: LoggingConfig
  GC :: GCConfig
  Limits :: LimitsConfig
  ResourceRequirements :: 'r
  PVC :: string
  Secret :: string
  CycloneServerAddr :: string

record ConfigMap =
  cm_Name :: string
  Data :: "string \<rightharpoonup> string"

text \<open>
  The package state \<open>LoadConfig\<close> writes: the variable \<open>Config\<close>, and whatever
  \<open>InitLogger\<close> sets up (type \<open>'l\<close>).
\<close>

record ('r, 'l) controller =
  Config :: "'r WorkflowControllerConfig"
  logger :: 'l

text \<open>
  The loop of \<open>validate\<close> over the required image keys: the first missing key ends it
  with false. The two \<open>log.Warn\<close> calls on an empty PVC or Secret change no result
  and are left out.
\<close>

fun requiredImages :: "(string \<rightharpoonup> string) \<Rightarrow> string list \<Rightarrow> bool" where
  "requiredImages m [] = True"
| "requiredImages m (k # ks) = (case m k of None \<Rightarrow> False | Some _ \<Rightarrow> requiredImages m ks)"

definition validate :: "'r WorkflowControllerConfig \<Rightarrow> bool" where
  "validate config =
     requiredImages (Images config)
       [GitResolverImage, ImageResolverImage, KvResolverImage, CoordinatorImage]"

text \<open>
  \<open>LoadConfig\<close>. \<open>json.Unmarshal\<close> of the standard library is the parameter
  \<open>unmarshal\<close>: from the text and the value \<open>Config\<close> holds it gives the error (or
  nil) and the value \<open>Config\<close> holds afterwards, since the source passes \<open>&Config\<close>
  itself as the target. \<open>InitLogger\<close>, defined elsewhere in the package, is the
  parameter \<open>initLogger\<close>.
\<close>

definition LoadConfig ::
  "(string \<Rightarrow> 'r WorkflowControllerConfig \<Rightarrow> error option \<times> 'r WorkflowControllerConfig)
   \<Rightarrow> (LoggingConfig \<Rightarrow> 'l \<Rightarrow> 'l) \<Rightarrow> ConfigMap \<Rightarrow> ('r, 'l) controller
   \<Rightarrow> error option \<times> ('r, 'l) controller" where
  "LoadConfig unmarshal initLogger cm s =
    (case Data cm ConfigFileKey of
       None \<Rightarrow>
         (Some (New (''ConfigMap '' @ quoted (cm_Name cm) @ '' doesn'' @ [CHR 0x27]
                  @ ''t have data key '' @ quoted ConfigFileKey)), s)
     | Some data \<Rightarrow>
         (case unmarshal data (Config s) of
            (Some err, c) \<Rightarrow> (Some err, s\<lparr>Config := c\<rparr>)
          | (None, c) \<Rightarrow>
              if \<not> validate c then (Some (New ''validate config failed''), s\<lparr>Config := c\<rparr>)
              else (None, s\<lparr>Config := c, logger := initLogger (Logging c) (logger s)\<rparr>)))"

section \<open>Listing projects (server handler, package v1alpha1)\<close>

text \<open>
  \<open>types.QueryParams\<close> is declared outside the given sources. \<open>Start\<close> and \<open>Limit\<close>
  are compared and added with \<open>int64(len(items))\<close>, so both are \<open>int64\<close>.
\<close>

record QueryParams =
  Start :: int64
  Limit :: int64

text \<open>The response is what \<open>types.NewListResponse\<close> is given: the total and the items.\<close>

datatype 'a ListResponse = NewListResponse int64 "'a list"

text \<open>
  The slice expression \<open>xs[lo:hi]\<close> with \<open>int64\<close> bounds: Go panics unless
  \<open>0 \<le> lo \<le> hi \<le> cap(xs)\<close>. The model bounds \<open>hi\<close> by the length; where
  \<open>ListProjects\<close> slices, \<open>hi\<close> is at most the length already.
\<close>

definition slice :: "'a list \<Rightarrow> int64 \<Rightarrow> int64 \<Rightarrow> 'a list option" where
  "slice xs lo hi =
     (if 0 \<le> sint lo \<and> sint lo \<le> sint hi \<and> sint hi \<le> int (length xs)
      then Some (take (nat (sint hi) - nat (sint lo)) (drop (nat (sint lo)) xs))
      else None)"

text \<open>
  \<open>ListProjects\<close>. The parameter \<open>projectsList\<close> is the answer of the cluster client
  to listing the projects of the tenant's namespace. \<open>+\<close> on \<open>int64\<close> wraps around,
  as Go's does; the comparisons are signed.
\<close>

definition ListProjects ::
  "(string \<Rightarrow> error + 'a list) \<Rightarrow> string \<Rightarrow> QueryParams \<Rightarrow> (error + 'a ListResponse) outcome" where
  "ListProjects projectsList tenant query =
    (case projectsList tenant of
       Inl err \<Rightarrow> Return (Inl err)
     | Inr items \<Rightarrow>
         (let size = (of_nat (length items) :: int64)
          in if size \<le>s Start query then Return (Inr (NewListResponse size []))
             else
               (let end0 = Start query + Limit query;
                    end1 = (if size <s end0 then size else end0)
                in case slice items (Start query) end1 of
                     None \<Rightarrow> Panic ''slice bounds out of range''
                   | Some page \<Rightarrow> Return (Inr (NewListResponse size page)))))"

section \<open>Sample inputs\<close>

definition exStage :: "PodWorkload option \<Rightarrow> DelegationWorkload option \<Rightarrow> Stage" where
  "exStage po de =
     \<lparr>stg_Name = ''build'', stg_Namespace = ''team'', stg_Spec = \<lparr>Pod = po, Delegation = de\<rparr>\<rparr>"

definition exRun :: "(string \<rightharpoonup> StageStatus) \<Rightarrow> WorkflowRun" where
  "exRun ss = \<lparr>wfr_Name = ''run-1'', wfr_Namespace = ''team'', wfr_Status = \<lparr>Stages = ss\<rparr>\<rparr>"

definition exProcessor :: "PodWorkload option \<Rightarrow> DelegationWorkload option \<Rightarrow> WorkloadProcessor" where
  "exProcessor po de = \<lparr>wf_p = \<lparr>wf_Name = ''ci''\<rparr>, wfr = exRun Map.empty, stg = exStage po de\<rparr>"

text \<open>
  A world whose collaborators answer the same whatever they are asked: the builder
  \<open>b\<close>, the pod API \<open>c\<close>, the quota test \<open>q\<close>, the delegate \<open>d\<close>, the WorkflowRun
  client \<open>g\<close>, and both operator writes \<open>u\<close>.
\<close>

definition exWorld ::
  "error + corev1_Pod \<Rightarrow> error + corev1_Pod \<Rightarrow> bool \<Rightarrow> error option \<Rightarrow> error + WorkflowRun
   \<Rightarrow> error option \<Rightarrow> world" where
  "exWorld b c q d g u =
     \<lparr>builderBuild = (\<lambda>_ _ _. b), podsCreate = (\<lambda>_. c), isExceededQuotaError = (\<lambda>_. q),
      delegate = (\<lambda>_. d), workflowRunsGet = (\<lambda>_ _. g), timeNow = 7,
      operUpdateStageStatus = (\<lambda>_ _. u), operUpdateStagePodInfo = (\<lambda>_ _. u)\<rparr>"

definition exDone :: StageStatus where
  "exDone = \<lparr>stage_Status = \<lparr>Phase = StatusSucceeded, Reason = ''Done'',
               LastTransitionTime = 6, Message = ''''\<rparr>, stage_Pod = None\<rparr>"

definition exManifest :: corev1_Pod where
  "exManifest = \<lparr>po_Name = ''run-1-build'', po_Namespace = ''team''\<rparr>"

definition exPod :: corev1_Pod where
  "exPod = \<lparr>po_Name = ''run-1-build-x7'', po_Namespace = ''team''\<rparr>"

definition exDelegation :: DelegationWorkload where
  "exDelegation = \<lparr>URL = ''http://d''\<rparr>"

definition exRunning :: StageStatus where
  "exRunning = \<lparr>stage_Status = \<lparr>Phase = StatusRunning, Reason = ''Started'',
                  LastTransitionTime = 6, Message = ''''\<rparr>, stage_Pod = None\<rparr>"

text \<open>
  A configuration document that names one image only, and what \<open>json.Unmarshal\<close>
  does with it: the members of \<open>images\<close> are stored into the map the target already
  has, \<open>pvc\<close> is assigned, every field the document does not mention keeps its value,
  and the result is nil. Any other text is answered here with a syntax error, which
  leaves the target as it was; only the document is used below.
\<close>

definition exDocument :: string where
  \<open>exDocument = ''{"images": {"git-resolver": "cyclone/git:v1"}, "pvc": "cyclone-data"}''\<close>

definition exUnmarshal ::
  "string \<Rightarrow> 'r WorkflowControllerConfig \<Rightarrow> error option \<times> 'r WorkflowControllerConfig" where
  "exUnmarshal data c =
     (if data = exDocument
      then (None, c\<lparr>Images := (Images c)(''git-resolver'' \<mapsto> ''cyclone/git:v1''),
                     PVC := ''cyclone-data''\<rparr>)
      else (Some (New ''invalid character''), c))"

text \<open>The zero value of \<open>WorkflowControllerConfig\<close>, which \<open>Config\<close> holds at start.\<close>

definition exZeroConfig :: "unit WorkflowControllerConfig" where
  "exZeroConfig = \<lparr>Images = Map.empty, Logging = \<lparr>Level = ''''\<rparr>,
     GC = \<lparr>Enabled = False, DelaySeconds = 0, RetryCount = 0\<rparr>,
     Limits = \<lparr>MaxWorkflowRuns = 0\<rparr>, ResourceRequirements = (),
     PVC = '''', Secret = '''', CycloneServerAddr = ''''\<rparr>"

definition exConfigMap :: ConfigMap where
  "exConfigMap = \<lparr>cm_Name = ''workflow-controller-config'', Data = [ConfigFileKey \<mapsto> exDocument]\<rparr>"

definition exEmptyConfigMap :: ConfigMap where
  "exEmptyConfigMap = \<lparr>cm_Name = ''workflow-controller-config'', Data = Map.empty\<rparr>"

text \<open>A ConfigMap whose text is not JSON: the decoder refuses it before writing anything.\<close>

definition exBrokenConfigMap :: ConfigMap where
  "exBrokenConfigMap = \<lparr>cm_Name = ''workflow-controller-config'', Data = [ConfigFileKey \<mapsto> ''{'']\<rparr>"

definition exController :: "(unit, string) controller" where
  "exController = \<lparr>Config = exZeroConfig, logger = ''info''\<rparr>"

definition exInitLogger :: "LoggingConfig \<Rightarrow> string \<Rightarrow> string" where
  "exInitLogger l _ = Level l"

section \<open>Facts used more than once\<close>

lemmas ex_defs =
  exWorld_def exProcessor_def exStage_def exRun_def exDone_def exRunning_def exManifest_def
  exPod_def exDelegation_def

lemmas config_defs =
  LoadConfig_def exUnmarshal_def exConfigMap_def exEmptyConfigMap_def exZeroConfig_def
  exDocument_def
  exController_def exInitLogger_def validate_def GitResolverImage_def ImageResolverImage_def
  KvResolverImage_def CoordinatorImage_def ConfigFileKey_def

lemma sint_size: "n < 2 ^ 63 \<Longrightarrow> sint (of_nat n :: int64) = int n"
  by (simp add: signed_of_nat signed_take_bit_int_eq_self)

lemma sint_add_small:
  "0 \<le> sint (a :: int64) \<Longrightarrow> 0 \<le> sint b \<Longrightarrow> sint a + sint b < 2 ^ 63
   \<Longrightarrow> sint (a + b) = sint a + sint b"
  by (simp add: sint_word_ariths signed_take_bit_int_eq_self)

section \<open>The delegation path\<close>

text \<open>
  C1. When the delegation call succeeds and the WorkflowRun read back shows the stage
  in phase Succeeded or Failed, \<open>processDelegation\<close> calls the delegate, records the
  normal event, reads the run, and returns nil: no stage status is written, so the
  terminal phase is not replaced by Waiting.
\<close>

theorem processDelegation_keeps_terminal_phase:
  assumes "Delegation (stg_Spec (stg p)) = Some d"
    and "delegate w \<lparr>req_Stage = stg p, req_Workflow = wf_p p, req_WorkflowRun = wfr p\<rparr> = None"
    and "workflowRunsGet w (wfr_Namespace (wfr p)) (wfr_Name (wfr p)) = Inr latestWfr"
    and "Stages (wfr_Status latestWfr) (stg_Name (stg p)) = Some s"
    and "Phase (stage_Status s) = StatusSucceeded \<or> Phase (stage_Status s) = StatusFailed"
  shows "processDelegation w p =
     ([Delegate \<lparr>req_Stage = stg p, req_Workflow = wf_p p, req_WorkflowRun = wfr p\<rparr>,
       Eventf EventTypeNormal ''DelegationSucceed''
         (''Delegate stage '' @ stg_Name (stg p) @ '' to '' @ URL d @ '' succeeded''),
       WorkflowRunsGet (wfr_Namespace (wfr p)) (wfr_Name (wfr p))],
      Return None)
    \<and> statusWrites (fst (processDelegation w p)) = []"
  using assms by (auto simp: processDelegation_def Let_def)

text \<open>The delegate answered, and the stage is already Succeeded when the run is read back.\<close>

theorem processDelegation_keeps_terminal_phase_witness:
  "processDelegation
     (exWorld (Inl (New ''unused'')) (Inl (New ''unused'')) False None
        (Inr (exRun [''build'' \<mapsto> exDone])) None)
     (exProcessor None (Some exDelegation)) =
     ([Delegate \<lparr>req_Stage = exStage None (Some exDelegation), req_Workflow = \<lparr>wf_Name = ''ci''\<rparr>,
                 req_WorkflowRun = exRun Map.empty\<rparr>,
       Eventf EventTypeNormal ''DelegationSucceed'' ''Delegate stage build to http://d succeeded'',
       WorkflowRunsGet ''team'' ''run-1''],
      Return None)
   \<and> statusWrites (fst (processDelegation
        (exWorld (Inl (New ''unused'')) (Inl (New ''unused'')) False None
           (Inr (exRun [''build'' \<mapsto> exDone])) None)
        (exProcessor None (Some exDelegation)))) = []"
  using processDelegation_keeps_terminal_phase
    [where d = exDelegation and latestWfr = "exRun [''build'' \<mapsto> exDone]" and s = exDone
       and w = "exWorld (Inl (New ''unused'')) (Inl (New ''unused'')) False None
                  (Inr (exRun [''build'' \<mapsto> exDone])) None"
       and p = "exProcessor None (Some exDelegation)"]
  by (simp add: ex_defs)

text \<open>
  C8. When the delegation call succeeds, the read back succeeds, and the stage is
  absent from the status map or its phase there is neither Succeeded nor Failed,
  \<open>processDelegation\<close> records one normal event with reason DelegationSucceed, then
  writes the stage status Waiting with reason DelegationSucceed, and returns nil.
\<close>

theorem processDelegation_marks_waiting:
  assumes "Delegation (stg_Spec (stg p)) = Some d"
    and "delegate w \<lparr>req_Stage = stg p, req_Workflow = wf_p p, req_WorkflowRun = wfr p\<rparr> = None"
    and "workflowRunsGet w (wfr_Namespace (wfr p)) (wfr_Name (wfr p)) = Inr latestWfr"
    and "\<forall>s. Stages (wfr_Status latestWfr) (stg_Name (stg p)) = Some s
             \<longrightarrow> Phase (stage_Status s) \<noteq> StatusSucceeded \<and> Phase (stage_Status s) \<noteq> StatusFailed"
  shows "processDelegation w p =
     ([Delegate \<lparr>req_Stage = stg p, req_Workflow = wf_p p, req_WorkflowRun = wfr p\<rparr>,
       Eventf EventTypeNormal ''DelegationSucceed''
         (''Delegate stage '' @ stg_Name (stg p) @ '' to '' @ URL d @ '' succeeded''),
       WorkflowRunsGet (wfr_Namespace (wfr p)) (wfr_Name (wfr p)),
       UpdateStageStatus (stg_Name (stg p))
         \<lparr>Phase = StatusWaiting, Reason = ''DelegationSucceed'',
          LastTransitionTime = timeNow w, Message = ''''\<rparr>],
      Return None)"
proof (cases "Stages (wfr_Status latestWfr) (stg_Name (stg p))")
  case None
  with assms show ?thesis by (simp add: processDelegation_def Let_def)
next
  case (Some s)
  with assms(4) have "\<not> IsPhaseTerminated (Phase (stage_Status s))"
    by (cases "Phase (stage_Status s)") simp_all
  with Some assms(1-3) show ?thesis by (simp add: processDelegation_def Let_def)
qed

text \<open>Once with the stage absent from the run read back, once with the stage Running.\<close>

theorem processDelegation_marks_waiting_witness:
  "events (fst (processDelegation
      (exWorld (Inl (New ''unused'')) (Inl (New ''unused'')) False None (Inr (exRun Map.empty)) None)
      (exProcessor None (Some exDelegation)))) = [(EventTypeNormal, ''DelegationSucceed'')]
   \<and> statusWrites (fst (processDelegation
      (exWorld (Inl (New ''unused'')) (Inl (New ''unused'')) False None (Inr (exRun Map.empty)) None)
      (exProcessor None (Some exDelegation)))) =
       [(''build'', \<lparr>Phase = StatusWaiting, Reason = ''DelegationSucceed'',
                     LastTransitionTime = 7, Message = ''''\<rparr>)]
   \<and> processDelegation
      (exWorld (Inl (New ''unused'')) (Inl (New ''unused'')) False None
         (Inr (exRun [''build'' \<mapsto> exRunning])) None)
      (exProcessor None (Some exDelegation)) =
       ([Delegate \<lparr>req_Stage = exStage None (Some exDelegation), req_Workflow = \<lparr>wf_Name = ''ci''\<rparr>,
                   req_WorkflowRun = exRun Map.empty\<rparr>,
         Eventf EventTypeNormal ''DelegationSucceed'' ''Delegate stage build to http://d succeeded'',
         WorkflowRunsGet ''team'' ''run-1'',
         UpdateStageStatus ''build''
           \<lparr>Phase = StatusWaiting, Reason = ''DelegationSucceed'',
            LastTransitionTime = 7, Message = ''''\<rparr>],
        Return None)"
  using processDelegation_marks_waiting
    [where d = exDelegation and latestWfr = "exRun Map.empty"
       and w = "exWorld (Inl (New ''unused'')) (Inl (New ''unused'')) False None
                  (Inr (exRun Map.empty)) None"
       and p = "exProcessor None (Some exDelegation)"]
    processDelegation_marks_waiting
    [where d = exDelegation and latestWfr = "exRun [''build'' \<mapsto> exRunning]"
       and w = "exWorld (Inl (New ''unused'')) (Inl (New ''unused'')) False None
                  (Inr (exRun [''build'' \<mapsto> exRunning])) None"
       and p = "exProcessor None (Some exDelegation)"]
  by (simp add: ex_defs)

section \<open>The pod path\<close>

text \<open>
  What \<open>processPod\<close> does on every failed submission: one warning event, whose reason
  is the text StagePodCreated, then one status write with reason CreatePodError, whose
  phase is Pending on a quota error and Failed otherwise, then the wrapped error.
\<close>

lemma processPod_create_error:
  assumes "builderBuild w (wf_p p) (wfr p) (stg p) = Inr po0"
    and "podsCreate w po0 = Inl err"
  shows "processPod w p =
     ([Build (wf_p p) (wfr p) (stg p),
       PodsCreate po0,
       Eventf EventTypeWarning ''StagePodCreated''
         (''Create pod for stage '' @ quoted (stg_Name (stg p)) @ '' error: '' @ Error err),
       UpdateStageStatus (stg_Name (stg p))
         \<lparr>Phase = (if isExceededQuotaError w err then StatusPending else StatusFailed),
          Reason = ''CreatePodError'', LastTransitionTime = timeNow w,
          Message = ''Failed to create pod: '' @ Error err\<rparr>],
      Return (Some (Wrapped ''create pod: '' err)))"
  using assms by (simp add: processPod_def Let_def)

text \<open>
  C2. The claim asks for a warning event with reason CreatePodError on a failed pod
  submission. Run on a submission that fails with an error that is not a quota error,
  and on one that fails with a quota error, \<open>processPod\<close> writes the phases Failed and
  Pending with status reason CreatePodError and records exactly one warning event each
  time, but the reason of that event is StagePodCreated, the reason of the success
  event, not CreatePodError.
\<close>

theorem processPod_create_error_event_reason:
  "events (fst (processPod
      (exWorld (Inr exManifest) (Inl (New ''boom'')) False None (Inl (New ''unused'')) None)
      (exProcessor (Some PodWorkload) None))) = [(EventTypeWarning, ''StagePodCreated'')]
   \<and> statusWrites (fst (processPod
      (exWorld (Inr exManifest) (Inl (New ''boom'')) False None (Inl (New ''unused'')) None)
      (exProcessor (Some PodWorkload) None))) =
        [(''build'', \<lparr>Phase = StatusFailed, Reason = ''CreatePodError'',
                      LastTransitionTime = 7, Message = ''Failed to create pod: boom''\<rparr>)]
   \<and> snd (processPod
      (exWorld (Inr exManifest) (Inl (New ''boom'')) False None (Inl (New ''unused'')) None)
      (exProcessor (Some PodWorkload) None)) = Return (Some (Wrapped ''create pod: '' (New ''boom'')))
   \<and> events (fst (processPod
      (exWorld (Inr exManifest) (Inl (New ''exceeded quota'')) True None (Inl (New ''unused'')) None)
      (exProcessor (Some PodWorkload) None))) = [(EventTypeWarning, ''StagePodCreated'')]
   \<and> statusWrites (fst (processPod
      (exWorld (Inr exManifest) (Inl (New ''exceeded quota'')) True None (Inl (New ''unused'')) None)
      (exProcessor (Some PodWorkload) None))) =
        [(''build'', \<lparr>Phase = StatusPending, Reason = ''CreatePodError'',
                      LastTransitionTime = 7, Message = ''Failed to create pod: exceeded quota''\<rparr>)]
   \<and> ''StagePodCreated'' \<noteq> ''CreatePodError''"
  by (simp add: processPod_def Let_def ex_defs)

text \<open>
  C6. When the pod is built and the cluster creates it, \<open>processPod\<close> does, in this
  order: the normal event StagePodCreated, the \<open>go\<close> statement that starts the pod
  event watcher on the created pod, the status write Running with reason
  StagePodCreated, the PodInfo write with the created pod's name and namespace; then it
  returns nil. The status writes of the call are that one write, and the PodInfo writes
  are that one write.
\<close>

theorem processPod_success_order:
  assumes "builderBuild w (wf_p p) (wfr p) (stg p) = Inr po0"
    and "podsCreate w po0 = Inr po"
  shows "processPod w p =
     ([Build (wf_p p) (wfr p) (stg p),
       PodsCreate po0,
       Eventf EventTypeNormal ''StagePodCreated''
         (''Create pod for stage '' @ quoted (stg_Name (stg p)) @ '' succeeded''),
       GoWatcherWork (stg_Name (stg p)) (po_Namespace po) (po_Name po),
       UpdateStageStatus (stg_Name (stg p))
         \<lparr>Phase = StatusRunning, Reason = ''StagePodCreated'',
          LastTransitionTime = timeNow w, Message = ''''\<rparr>,
       UpdateStagePodInfo (stg_Name (stg p)) \<lparr>pi_Name = po_Name po, pi_Namespace = po_Namespace po\<rparr>],
      Return None)
    \<and> statusWrites (fst (processPod w p)) =
       [(stg_Name (stg p), \<lparr>Phase = StatusRunning, Reason = ''StagePodCreated'',
                            LastTransitionTime = timeNow w, Message = ''''\<rparr>)]
    \<and> podInfoWrites (fst (processPod w p)) =
       [(stg_Name (stg p), \<lparr>pi_Name = po_Name po, pi_Namespace = po_Namespace po\<rparr>)]"
  using assms by (simp add: processPod_def Let_def)

theorem processPod_success_order_witness:
  "processPod
     (exWorld (Inr exManifest) (Inr exPod) False None (Inl (New ''unused'')) None)
     (exProcessor (Some PodWorkload) None) =
     ([Build \<lparr>wf_Name = ''ci''\<rparr> (exRun Map.empty) (exStage (Some PodWorkload) None),
       PodsCreate exManifest,
       Eventf EventTypeNormal ''StagePodCreated''
         (''Create pod for stage '' @ quoted ''build'' @ '' succeeded''),
       GoWatcherWork ''build'' ''team'' ''run-1-build-x7'',
       UpdateStageStatus ''build''
         \<lparr>Phase = StatusRunning, Reason = ''StagePodCreated'',
          LastTransitionTime = 7, Message = ''''\<rparr>,
       UpdateStagePodInfo ''build'' \<lparr>pi_Name = ''run-1-build-x7'', pi_Namespace = ''team''\<rparr>],
      Return None)"
  using processPod_success_order
    [where w = "exWorld (Inr exManifest) (Inr exPod) False None (Inl (New ''unused'')) None"
       and p = "exProcessor (Some PodWorkload) None" and ?po0.0 = exManifest and po = exPod]
  by (simp add: ex_defs)

text \<open>
  C9. The errors the operator returns from \<open>UpdateStageStatus\<close> and
  \<open>UpdateStagePodInfo\<close> are dropped on every path: whatever the two writes answer,
  \<open>processPod\<close>, \<open>processDelegation\<close> and \<open>Process\<close> do the same and return the
  same. In particular, once the pod is created \<open>processPod\<close> returns nil even when
  both writes fail.
\<close>

theorem operator_errors_are_dropped:
  "processPod (w\<lparr>operUpdateStageStatus := f, operUpdateStagePodInfo := g\<rparr>) p = processPod w p
   \<and> processDelegation (w\<lparr>operUpdateStageStatus := f, operUpdateStagePodInfo := g\<rparr>) p
       = processDelegation w p
   \<and> Process (w\<lparr>operUpdateStageStatus := f, operUpdateStagePodInfo := g\<rparr>) p = Process w p
   \<and> (\<forall>po0 po. builderBuild w (wf_p p) (wfr p) (stg p) = Inr po0 \<and> podsCreate w po0 = Inr po
        \<longrightarrow> snd (processPod (w\<lparr>operUpdateStageStatus := f, operUpdateStagePodInfo := g\<rparr>) p)
              = Return None)"
  by (simp add: Process_def processPod_def processDelegation_def Let_def
           split: sum.splits option.splits)

text \<open>Both operator writes fail with a conflict; the caller still gets nil.\<close>

theorem operator_errors_are_dropped_witness:
  "snd (processPod
     ((exWorld (Inr exManifest) (Inr exPod) False None (Inl (New ''unused'')) None)
        \<lparr>operUpdateStageStatus := (\<lambda>_ _. Some (New ''conflict'')),
         operUpdateStagePodInfo := (\<lambda>_ _. Some (New ''conflict''))\<rparr>)
     (exProcessor (Some PodWorkload) None)) = Return None
   \<and> operUpdateStageStatus
       ((exWorld (Inr exManifest) (Inr exPod) False None (Inl (New ''unused'')) None)
          \<lparr>operUpdateStageStatus := (\<lambda>_ _. Some (New ''conflict'')),
           operUpdateStagePodInfo := (\<lambda>_ _. Some (New ''conflict''))\<rparr>)
       ''build'' \<lparr>Phase = StatusRunning, Reason = ''StagePodCreated'',
                  LastTransitionTime = 7, Message = ''''\<rparr> = Some (New ''conflict'')"
  using operator_errors_are_dropped
    [where w = "exWorld (Inr exManifest) (Inr exPod) False None (Inl (New ''unused'')) None"
       and p = "exProcessor (Some PodWorkload) None"
       and f = "\<lambda>_ _. Some (New ''conflict'')" and g = "\<lambda>_ _. Some (New ''conflict'')"]
  by (simp add: ex_defs processPod_def Let_def)

section \<open>Process\<close>

text \<open>
  C3. For a stage with both Pod and Delegation set, and for a stage with neither,
  \<open>Process\<close> returns the configuration error (ending in "but got both", or in
  "but got none") and touches no collaborator: the trace is empty, so there is no
  status write, no PodInfo write and no event.
\<close>

theorem Process_rejects_both_or_neither:
  assumes "(Pod (stg_Spec (stg p)) \<noteq> None \<and> Delegation (stg_Spec (stg p)) \<noteq> None)
         \<or> (Pod (stg_Spec (stg p)) = None \<and> Delegation (stg_Spec (stg p)) = None)"
  shows "Process w p =
     ([], Return (Some (New (''exact 1 workload (pod or delegation) expected in stage ''
              @ quoted (stg_Namespace (stg p) @ ''/'' @ stg_Name (stg p))
              @ (if Pod (stg_Spec (stg p)) \<noteq> None then '', but got both''
                 else '', but got none'')))))"
  using assms by (auto simp: Process_def)

theorem Process_rejects_both_or_neither_witness:
  "Process (exWorld (Inr exManifest) (Inr exPod) False None (Inr (exRun Map.empty)) None)
     (exProcessor (Some PodWorkload) (Some exDelegation)) =
     ([], Return (Some (New (''exact 1 workload (pod or delegation) expected in stage ''
              @ quoted ''team/build'' @ '', but got both''))))
   \<and> Process (exWorld (Inr exManifest) (Inr exPod) False None (Inr (exRun Map.empty)) None)
     (exProcessor None None) =
     ([], Return (Some (New (''exact 1 workload (pod or delegation) expected in stage ''
              @ quoted ''team/build'' @ '', but got none''))))"
  using Process_rejects_both_or_neither
          [of "exProcessor (Some PodWorkload) (Some exDelegation)"
              "exWorld (Inr exManifest) (Inr exPod) False None (Inr (exRun Map.empty)) None"]
        Process_rejects_both_or_neither
          [of "exProcessor None None"
              "exWorld (Inr exManifest) (Inr exPod) False None (Inr (exRun Map.empty)) None"]
  by (simp add: exProcessor_def exStage_def exDelegation_def)

text \<open>
  Two calls of \<open>Process\<close> that return an error which is not the validation error and
  have written no status Failed. A delegation stage whose delegate accepts the call
  and whose WorkflowRun cannot be read back: the read error is returned and no status
  is written. A pod stage whose submission fails with a quota error: the one status
  written has phase Pending.
\<close>

theorem Process_error_without_Failed_counterexample:
  "snd (Process
      (exWorld (Inl (New ''unused'')) (Inl (New ''unused'')) False None
         (Inl (New ''connection refused'')) None)
      (exProcessor None (Some exDelegation))) = Return (Some (New ''connection refused''))
   \<and> statusWrites (fst (Process
      (exWorld (Inl (New ''unused'')) (Inl (New ''unused'')) False None
         (Inl (New ''connection refused'')) None)
      (exProcessor None (Some exDelegation)))) = []
   \<and> snd (Process
      (exWorld (Inr exManifest) (Inl (New ''exceeded quota'')) True None (Inl (New ''unused'')) None)
      (exProcessor (Some PodWorkload) None))
       = Return (Some (Wrapped ''create pod: '' (New ''exceeded quota'')))
   \<and> statusWrites (fst (Process
      (exWorld (Inr exManifest) (Inl (New ''exceeded quota'')) True None (Inl (New ''unused'')) None)
      (exProcessor (Some PodWorkload) None))) =
        [(''build'', \<lparr>Phase = StatusPending, Reason = ''CreatePodError'',
                      LastTransitionTime = 7, Message = ''Failed to create pod: exceeded quota''\<rparr>)]"
  by (simp add: Process_def processPod_def processDelegation_def Let_def ex_defs)

text \<open>
  C5, amended. Take a call of \<open>Process\<close> that returns an error, on a stage with
  exactly one workload (so the error is not the validation error). The call took one of
  four paths, and on each the whole trace and the error are fixed:
  the manifest could not be built: a warning event, then the status write Failed with
  reason GeneratePodError, then the error wrapped with "create pod manifest: ";
  the pod could not be submitted: a warning event, then the status write with reason
  CreatePodError whose phase is Pending if the error is a quota error and Failed if it
  is not, then the error wrapped with "create pod: ";
  the delegate refused the call: a warning event, then the status write Failed with
  reason DelegationFailure, then the delegate's error;
  the delegate accepted the call and the WorkflowRun could not be read back: the normal
  event and the read, no status write at all, then the read error.
\<close>

theorem Process_error_status_write:
  assumes "snd (Process w p) = Return (Some e)"
    and "(Pod (stg_Spec (stg p)) = None) \<noteq> (Delegation (stg_Spec (stg p)) = None)"
  shows "(\<forall>err. Pod (stg_Spec (stg p)) \<noteq> None \<and> builderBuild w (wf_p p) (wfr p) (stg p) = Inl err
           \<longrightarrow> Process w p =
              ([Build (wf_p p) (wfr p) (stg p),
                Eventf EventTypeWarning ''GeneratePodSpecError''
                  (''Generate pod for stage '' @ quoted (stg_Name (stg p)) @ '' error: '' @ Error err),
                UpdateStageStatus (stg_Name (stg p))
                  \<lparr>Phase = StatusFailed, Reason = ''GeneratePodError'',
                   LastTransitionTime = timeNow w,
                   Message = ''Failed to generate pod: '' @ Error err\<rparr>],
               Return (Some (Wrapped ''create pod manifest: '' err))))
       \<and> (\<forall>po0 err. Pod (stg_Spec (stg p)) \<noteq> None
              \<and> builderBuild w (wf_p p) (wfr p) (stg p) = Inr po0 \<and> podsCreate w po0 = Inl err
           \<longrightarrow> Process w p =
              ([Build (wf_p p) (wfr p) (stg p),
                PodsCreate po0,
                Eventf EventTypeWarning ''StagePodCreated''
                  (''Create pod for stage '' @ quoted (stg_Name (stg p)) @ '' error: '' @ Error err),
                UpdateStageStatus (stg_Name (stg p))
                  \<lparr>Phase = (if isExceededQuotaError w err then StatusPending else StatusFailed),
                   Reason = ''CreatePodError'', LastTransitionTime = timeNow w,
                   Message = ''Failed to create pod: '' @ Error err\<rparr>],
               Return (Some (Wrapped ''create pod: '' err))))
       \<and> (\<forall>d err. Pod (stg_Spec (stg p)) = None \<and> Delegation (stg_Spec (stg p)) = Some d
              \<and> delegate w \<lparr>req_Stage = stg p, req_Workflow = wf_p p, req_WorkflowRun = wfr p\<rparr>
                   = Some err
           \<longrightarrow> Process w p =
              ([Delegate \<lparr>req_Stage = stg p, req_Workflow = wf_p p, req_WorkflowRun = wfr p\<rparr>,
                Eventf EventTypeWarning ''DelegationFailure''
                  (''Delegate stage '' @ stg_Name (stg p) @ '' to '' @ URL d @ '' error: '' @ Error err),
                UpdateStageStatus (stg_Name (stg p))
                  \<lparr>Phase = StatusFailed, Reason = ''DelegationFailure'',
                   LastTransitionTime = timeNow w,
                   Message = ''Delegate error: '' @ Error err\<rparr>],
               Return (Some err)))
       \<and> (\<forall>d err. Pod (stg_Spec (stg p)) = None \<and> Delegation (stg_Spec (stg p)) = Some d
              \<and> delegate w \<lparr>req_Stage = stg p, req_Workflow = wf_p p, req_WorkflowRun = wfr p\<rparr>
                   = None
              \<and> workflowRunsGet w (wfr_Namespace (wfr p)) (wfr_Name (wfr p)) = Inl err
           \<longrightarrow> Process w p =
              ([Delegate \<lparr>req_Stage = stg p, req_Workflow = wf_p p, req_WorkflowRun = wfr p\<rparr>,
                Eventf EventTypeNormal ''DelegationSucceed''
                  (''Delegate stage '' @ stg_Name (stg p) @ '' to '' @ URL d @ '' succeeded''),
                WorkflowRunsGet (wfr_Namespace (wfr p)) (wfr_Name (wfr p))],
               Return (Some err))
              \<and> statusWrites (fst (Process w p)) = [])
       \<and> ((\<exists>err. Pod (stg_Spec (stg p)) \<noteq> None
                \<and> builderBuild w (wf_p p) (wfr p) (stg p) = Inl err)
          \<or> (\<exists>po0 err. Pod (stg_Spec (stg p)) \<noteq> None
                \<and> builderBuild w (wf_p p) (wfr p) (stg p) = Inr po0 \<and> podsCreate w po0 = Inl err)
          \<or> (\<exists>d err. Pod (stg_Spec (stg p)) = None \<and> Delegation (stg_Spec (stg p)) = Some d
                \<and> delegate w \<lparr>req_Stage = stg p, req_Workflow = wf_p p, req_WorkflowRun = wfr p\<rparr>
                     = Some err)
          \<or> (\<exists>d. Pod (stg_Spec (stg p)) = None \<and> Delegation (stg_Spec (stg p)) = Some d
                \<and> delegate w \<lparr>req_Stage = stg p, req_Workflow = wf_p p, req_WorkflowRun = wfr p\<rparr>
                     = None
                \<and> workflowRunsGet w (wfr_Namespace (wfr p)) (wfr_Name (wfr p)) = Inl e))
       \<and> (Pod (stg_Spec (stg p)) \<noteq> None
            \<or> delegate w \<lparr>req_Stage = stg p, req_Workflow = wf_p p, req_WorkflowRun = wfr p\<rparr> \<noteq> None
          \<longrightarrow> (\<exists>st. statusWrites (fst (Process w p)) = [(stg_Name (stg p), st)]
                 \<and> Reason st \<in> {''GeneratePodError'', ''CreatePodError'', ''DelegationFailure''}
                 \<and> (Phase st = StatusFailed
                      \<or> (Phase st = StatusPending \<and> Reason st = ''CreatePodError''
                          \<and> (\<exists>po0 err. builderBuild w (wf_p p) (wfr p) (stg p) = Inr po0
                                \<and> podsCreate w po0 = Inl err \<and> isExceededQuotaError w err)))))"
  using assms
  by (auto simp: Process_def processPod_def processDelegation_def Let_def
           split: sum.splits option.splits if_splits)

text \<open>
  The four paths once each: a manifest that cannot be built, a submission refused for
  quota, a delegate that refuses, and a run that cannot be read back.
\<close>

theorem Process_error_status_write_witness:
  "Process
      (exWorld (Inl (New ''no image'')) (Inl (New ''unused'')) False None (Inl (New ''unused'')) None)
      (exProcessor (Some PodWorkload) None) =
     ([Build \<lparr>wf_Name = ''ci''\<rparr> (exRun Map.empty) (exStage (Some PodWorkload) None),
       Eventf EventTypeWarning ''GeneratePodSpecError''
         (''Generate pod for stage '' @ quoted ''build'' @ '' error: no image''),
       UpdateStageStatus ''build''
         \<lparr>Phase = StatusFailed, Reason = ''GeneratePodError'', LastTransitionTime = 7,
          Message = ''Failed to generate pod: no image''\<rparr>],
      Return (Some (Wrapped ''create pod manifest: '' (New ''no image''))))
   \<and> Process
      (exWorld (Inr exManifest) (Inl (New ''exceeded quota'')) True None (Inl (New ''unused'')) None)
      (exProcessor (Some PodWorkload) None) =
     ([Build \<lparr>wf_Name = ''ci''\<rparr> (exRun Map.empty) (exStage (Some PodWorkload) None),
       PodsCreate exManifest,
       Eventf EventTypeWarning ''StagePodCreated''
         (''Create pod for stage '' @ quoted ''build'' @ '' error: exceeded quota''),
       UpdateStageStatus ''build''
         \<lparr>Phase = StatusPending, Reason = ''CreatePodError'', LastTransitionTime = 7,
          Message = ''Failed to create pod: exceeded quota''\<rparr>],
      Return (Some (Wrapped ''create pod: '' (New ''exceeded quota''))))
   \<and> Process
      (exWorld (Inl (New ''unused'')) (Inl (New ''unused'')) False (Some (New ''503''))
         (Inl (New ''unused'')) None)
      (exProcessor None (Some exDelegation)) =
     ([Delegate \<lparr>req_Stage = exStage None (Some exDelegation), req_Workflow = \<lparr>wf_Name = ''ci''\<rparr>,
                 req_WorkflowRun = exRun Map.empty\<rparr>,
       Eventf EventTypeWarning ''DelegationFailure'' ''Delegate stage build to http://d error: 503'',
       UpdateStageStatus ''build''
         \<lparr>Phase = StatusFailed, Reason = ''DelegationFailure'', LastTransitionTime = 7,
          Message = ''Delegate error: 503''\<rparr>],
      Return (Some (New ''503'')))
   \<and> statusWrites (fst (Process
      (exWorld (Inl (New ''unused'')) (Inl (New ''unused'')) False None
         (Inl (New ''connection refused'')) None)
      (exProcessor None (Some exDelegation)))) = []"
proof -
  let ?pod = "exProcessor (Some PodWorkload) None"
  let ?del = "exProcessor None (Some exDelegation)"
  let ?w1 = "exWorld (Inl (New ''no image'')) (Inl (New ''unused'')) False None
               (Inl (New ''unused'')) None"
  let ?w2 = "exWorld (Inr exManifest) (Inl (New ''exceeded quota'')) True None
               (Inl (New ''unused'')) None"
  let ?w3 = "exWorld (Inl (New ''unused'')) (Inl (New ''unused'')) False (Some (New ''503''))
               (Inl (New ''unused'')) None"
  let ?w4 = "exWorld (Inl (New ''unused'')) (Inl (New ''unused'')) False None
               (Inl (New ''connection refused'')) None"
  have onePod: "(Pod (stg_Spec (stg ?pod)) = None) \<noteq> (Delegation (stg_Spec (stg ?pod)) = None)"
    by (simp add: ex_defs)
  have oneDel: "(Pod (stg_Spec (stg ?del)) = None) \<noteq> (Delegation (stg_Spec (stg ?del)) = None)"
    by (simp add: ex_defs)
  have r1: "snd (Process ?w1 ?pod) = Return (Some (Wrapped ''create pod manifest: '' (New ''no image'')))"
    by (simp add: Process_def processPod_def Let_def ex_defs)
  have r2: "snd (Process ?w2 ?pod) = Return (Some (Wrapped ''create pod: '' (New ''exceeded quota'')))"
    by (simp add: Process_def processPod_def Let_def ex_defs)
  have r3: "snd (Process ?w3 ?del) = Return (Some (New ''503''))"
    by (simp add: Process_def processDelegation_def Let_def ex_defs)
  have r4: "snd (Process ?w4 ?del) = Return (Some (New ''connection refused''))"
    by (simp add: Process_def processDelegation_def Let_def ex_defs)
  from Process_error_status_write [OF r1 onePod]
  have a: "Process ?w1 ?pod =
     ([Build \<lparr>wf_Name = ''ci''\<rparr> (exRun Map.empty) (exStage (Some PodWorkload) None),
       Eventf EventTypeWarning ''GeneratePodSpecError''
         (''Generate pod for stage '' @ quoted ''build'' @ '' error: no image''),
       UpdateStageStatus ''build''
         \<lparr>Phase = StatusFailed, Reason = ''GeneratePodError'', LastTransitionTime = 7,
          Message = ''Failed to generate pod: no image''\<rparr>],
      Return (Some (Wrapped ''create pod manifest: '' (New ''no image''))))"
    by (simp add: ex_defs)
  from Process_error_status_write [OF r2 onePod]
  have b: "Process ?w2 ?pod =
     ([Build \<lparr>wf_Name = ''ci''\<rparr> (exRun Map.empty) (exStage (Some PodWorkload) None),
       PodsCreate exManifest,
       Eventf EventTypeWarning ''StagePodCreated''
         (''Create pod for stage '' @ quoted ''build'' @ '' error: exceeded quota''),
       UpdateStageStatus ''build''
         \<lparr>Phase = StatusPending, Reason = ''CreatePodError'', LastTransitionTime = 7,
          Message = ''Failed to create pod: exceeded quota''\<rparr>],
      Return (Some (Wrapped ''create pod: '' (New ''exceeded quota''))))"
    by (simp add: ex_defs)
  from Process_error_status_write [OF r3 oneDel]
  have c: "Process ?w3 ?del =
     ([Delegate \<lparr>req_Stage = exStage None (Some exDelegation), req_Workflow = \<lparr>wf_Name = ''ci''\<rparr>,
                 req_WorkflowRun = exRun Map.empty\<rparr>,
       Eventf EventTypeWarning ''DelegationFailure'' ''Delegate stage build to http://d error: 503'',
       UpdateStageStatus ''build''
         \<lparr>Phase = StatusFailed, Reason = ''DelegationFailure'', LastTransitionTime = 7,
          Message = ''Delegate error: 503''\<rparr>],
      Return (Some (New ''503'')))"
    by (simp add: ex_defs)
  from Process_error_status_write [OF r4 oneDel]
  have d: "statusWrites (fst (Process ?w4 ?del)) = []"
    by (simp add: ex_defs)
  from a b c d show ?thesis by blast
qed

text \<open>
  C7. Over one call of \<open>Process\<close>. If the stage is a pod stage whose pod was built and
  created, the call ends with the status write Running for this stage followed at once
  by the PodInfo write for this same stage, carrying the created pod's name and
  namespace; these are its only status write and its only PodInfo write. In every
  other case (build failure, submission failure, delegation stage, invalid stage) the
  call issues no PodInfo write and no status write with phase Running. So a PodInfo
  write is issued exactly when the pod was created, which is exactly when the Running
  write for the stage is issued; there is at most one; a call that does not return nil
  issues none, and neither does a call on a stage without a pod workload.
\<close>

theorem PodInfo_iff_pod_running:
  "(\<forall>po0 po. Pod (stg_Spec (stg p)) \<noteq> None \<and> Delegation (stg_Spec (stg p)) = None
        \<and> builderBuild w (wf_p p) (wfr p) (stg p) = Inr po0 \<and> podsCreate w po0 = Inr po
      \<longrightarrow> Process w p =
          ([Build (wf_p p) (wfr p) (stg p),
            PodsCreate po0,
            Eventf EventTypeNormal ''StagePodCreated''
              (''Create pod for stage '' @ quoted (stg_Name (stg p)) @ '' succeeded''),
            GoWatcherWork (stg_Name (stg p)) (po_Namespace po) (po_Name po),
            UpdateStageStatus (stg_Name (stg p))
              \<lparr>Phase = StatusRunning, Reason = ''StagePodCreated'',
               LastTransitionTime = timeNow w, Message = ''''\<rparr>,
            UpdateStagePodInfo (stg_Name (stg p))
              \<lparr>pi_Name = po_Name po, pi_Namespace = po_Namespace po\<rparr>],
           Return None)
        \<and> statusWrites (fst (Process w p)) =
            [(stg_Name (stg p), \<lparr>Phase = StatusRunning, Reason = ''StagePodCreated'',
                                 LastTransitionTime = timeNow w, Message = ''''\<rparr>)]
        \<and> podInfoWrites (fst (Process w p)) =
            [(stg_Name (stg p), \<lparr>pi_Name = po_Name po, pi_Namespace = po_Namespace po\<rparr>)])
   \<and> (\<not> (Pod (stg_Spec (stg p)) \<noteq> None \<and> Delegation (stg_Spec (stg p)) = None
          \<and> (\<exists>po0 po. builderBuild w (wf_p p) (wfr p) (stg p) = Inr po0
                \<and> podsCreate w po0 = Inr po))
      \<longrightarrow> podInfoWrites (fst (Process w p)) = []
          \<and> (\<forall>n st. (n, st) \<in> set (statusWrites (fst (Process w p)))
                \<longrightarrow> Phase st \<noteq> StatusRunning))
   \<and> (podInfoWrites (fst (Process w p)) \<noteq> []) =
     (Pod (stg_Spec (stg p)) \<noteq> None \<and> Delegation (stg_Spec (stg p)) = None
      \<and> (\<exists>po0 po. builderBuild w (wf_p p) (wfr p) (stg p) = Inr po0 \<and> podsCreate w po0 = Inr po))
   \<and> (podInfoWrites (fst (Process w p)) \<noteq> []) =
     (\<exists>st. (stg_Name (stg p), st) \<in> set (statusWrites (fst (Process w p)))
           \<and> Phase st = StatusRunning)
   \<and> length (podInfoWrites (fst (Process w p))) \<le> 1
   \<and> (snd (Process w p) \<noteq> Return None \<longrightarrow> podInfoWrites (fst (Process w p)) = [])
   \<and> (Pod (stg_Spec (stg p)) = None \<longrightarrow> podInfoWrites (fst (Process w p)) = [])"
  by (auto simp: Process_def processPod_def processDelegation_def Let_def
           split: sum.splits option.splits)

text \<open>
  A pod stage whose pod is created: the Running write, then the PodInfo write, both for
  the stage. A pod stage that fails at submission, and a delegation stage: no PodInfo
  write.
\<close>

theorem PodInfo_iff_pod_running_witness:
  "Process
      (exWorld (Inr exManifest) (Inr exPod) False None (Inl (New ''unused'')) None)
      (exProcessor (Some PodWorkload) None) =
     ([Build \<lparr>wf_Name = ''ci''\<rparr> (exRun Map.empty) (exStage (Some PodWorkload) None),
       PodsCreate exManifest,
       Eventf EventTypeNormal ''StagePodCreated''
         (''Create pod for stage '' @ quoted ''build'' @ '' succeeded''),
       GoWatcherWork ''build'' ''team'' ''run-1-build-x7'',
       UpdateStageStatus ''build''
         \<lparr>Phase = StatusRunning, Reason = ''StagePodCreated'',
          LastTransitionTime = 7, Message = ''''\<rparr>,
       UpdateStagePodInfo ''build'' \<lparr>pi_Name = ''run-1-build-x7'', pi_Namespace = ''team''\<rparr>],
      Return None)
   \<and> podInfoWrites (fst (Process
      (exWorld (Inr exManifest) (Inr exPod) False None (Inl (New ''unused'')) None)
      (exProcessor (Some PodWorkload) None))) =
       [(''build'', \<lparr>pi_Name = ''run-1-build-x7'', pi_Namespace = ''team''\<rparr>)]
   \<and> snd (Process
      (exWorld (Inr exManifest) (Inl (New ''boom'')) False None (Inl (New ''unused'')) None)
      (exProcessor (Some PodWorkload) None)) \<noteq> Return None
   \<and> podInfoWrites (fst (Process
      (exWorld (Inr exManifest) (Inl (New ''boom'')) False None (Inl (New ''unused'')) None)
      (exProcessor (Some PodWorkload) None))) = []
   \<and> Pod (stg_Spec (stg (exProcessor None (Some exDelegation)))) = None
   \<and> podInfoWrites (fst (Process
      (exWorld (Inr exManifest) (Inr exPod) False None (Inr (exRun Map.empty)) None)
      (exProcessor None (Some exDelegation)))) = []"
proof -
  let ?ok = "exWorld (Inr exManifest) (Inr exPod) False None (Inl (New ''unused'')) None"
  let ?w = "exWorld (Inr exManifest) (Inl (New ''boom'')) False None (Inl (New ''unused'')) None"
  let ?p = "exProcessor (Some PodWorkload) None"
  let ?w' = "exWorld (Inr exManifest) (Inr exPod) False None (Inr (exRun Map.empty)) None"
  let ?p' = "exProcessor None (Some exDelegation)"
  from PodInfo_iff_pod_running [of ?p ?ok]
  have c: "Process ?ok ?p =
     ([Build \<lparr>wf_Name = ''ci''\<rparr> (exRun Map.empty) (exStage (Some PodWorkload) None),
       PodsCreate exManifest,
       Eventf EventTypeNormal ''StagePodCreated''
         (''Create pod for stage '' @ quoted ''build'' @ '' succeeded''),
       GoWatcherWork ''build'' ''team'' ''run-1-build-x7'',
       UpdateStageStatus ''build''
         \<lparr>Phase = StatusRunning, Reason = ''StagePodCreated'',
          LastTransitionTime = 7, Message = ''''\<rparr>,
       UpdateStagePodInfo ''build'' \<lparr>pi_Name = ''run-1-build-x7'', pi_Namespace = ''team''\<rparr>],
      Return None)
    \<and> podInfoWrites (fst (Process ?ok ?p)) =
       [(''build'', \<lparr>pi_Name = ''run-1-build-x7'', pi_Namespace = ''team''\<rparr>)]"
    by (simp add: ex_defs)
  have err: "snd (Process ?w ?p) \<noteq> Return None"
    by (simp add: Process_def processPod_def Let_def ex_defs)
  have nopod: "Pod (stg_Spec (stg ?p')) = None"
    by (simp add: ex_defs)
  from PodInfo_iff_pod_running [of ?p ?w] err
  have a: "podInfoWrites (fst (Process ?w ?p)) = []" by blast
  from PodInfo_iff_pod_running [of ?p' ?w'] nopod
  have b: "podInfoWrites (fst (Process ?w' ?p')) = []" by blast
  from c err a nopod b show ?thesis by blast
qed

section \<open>Loading the configuration\<close>

text \<open>
  A load that fails and changes the active configuration. \<open>Config\<close> holds its zero
  value; the document names the git resolver image only, so it lacks the
  image-resolver key. Decoding succeeds and writes into \<open>Config\<close>, validation then
  fails, and \<open>LoadConfig\<close> returns the error with the decoded images and PVC left in
  \<open>Config\<close>.
\<close>

theorem LoadConfig_failed_load_changes_Config_counterexample:
  "fst (LoadConfig exUnmarshal exInitLogger exConfigMap exController)
     = Some (New ''validate config failed'')
   \<and> Config (snd (LoadConfig exUnmarshal exInitLogger exConfigMap exController))
       \<noteq> Config exController
   \<and> PVC (Config exController) = ''''
   \<and> PVC (Config (snd (LoadConfig exUnmarshal exInitLogger exConfigMap exController)))
       = ''cyclone-data''
   \<and> Images (Config exController) GitResolverImage = None
   \<and> Images (Config (snd (LoadConfig exUnmarshal exInitLogger exConfigMap exController)))
        GitResolverImage = Some ''cyclone/git:v1''"
  by (simp add: config_defs)

text \<open>
  C4, amended. \<open>LoadConfig\<close> returns an error exactly when the ConfigMap lacks the key
  workflow-controller.json, or \<open>json.Unmarshal\<close> returns an error, or the decoded
  \<open>Config\<close> fails validation. After such a failed load the package state is the
  previous one with \<open>Config\<close> replaced by what \<open>json.Unmarshal\<close>, decoding into
  \<open>Config\<close> itself, left there (and not replaced at all when the key is lacking); the
  logger is as before. So the active configuration equals its previous value exactly
  when the key is lacking or the decoder left \<open>Config\<close> as it was; \<open>LoadConfig\<close>
  neither restores the previous value nor changes \<open>Config\<close> further.
\<close>

theorem LoadConfig_error_leaves_decoded_Config:
  "(fst (LoadConfig unmarshal initLogger cm s) \<noteq> None) =
     (case Data cm ConfigFileKey of
        None \<Rightarrow> True
      | Some data \<Rightarrow> fst (unmarshal data (Config s)) \<noteq> None
                     \<or> \<not> validate (snd (unmarshal data (Config s))))
   \<and> (fst (LoadConfig unmarshal initLogger cm s) \<noteq> None \<longrightarrow>
        snd (LoadConfig unmarshal initLogger cm s) =
          (case Data cm ConfigFileKey of
             None \<Rightarrow> s
           | Some data \<Rightarrow> s\<lparr>Config := snd (unmarshal data (Config s))\<rparr>)
        \<and> logger (snd (LoadConfig unmarshal initLogger cm s)) = logger s
        \<and> Config (snd (LoadConfig unmarshal initLogger cm s)) =
          (case Data cm ConfigFileKey of
             None \<Rightarrow> Config s
           | Some data \<Rightarrow> snd (unmarshal data (Config s)))
        \<and> (Config (snd (LoadConfig unmarshal initLogger cm s)) = Config s) =
          (case Data cm ConfigFileKey of
             None \<Rightarrow> True
           | Some data \<Rightarrow> snd (unmarshal data (Config s)) = Config s))"
  by (auto simp: LoadConfig_def split: option.splits prod.splits)

text \<open>
  A ConfigMap without the key: the load fails and \<open>Config\<close> is as before. The
  ConfigMap with the one-image document: the load fails and \<open>Config\<close> is what the
  decoder left. A ConfigMap whose text the decoder refuses without writing: the load
  fails and \<open>Config\<close> is as before, although the key is there.
\<close>

theorem LoadConfig_error_leaves_decoded_Config_witness:
  "fst (LoadConfig exUnmarshal exInitLogger exEmptyConfigMap exController) \<noteq> None
   \<and> snd (LoadConfig exUnmarshal exInitLogger exEmptyConfigMap exController) = exController
   \<and> fst (LoadConfig exUnmarshal exInitLogger exConfigMap exController) \<noteq> None
   \<and> logger (snd (LoadConfig exUnmarshal exInitLogger exConfigMap exController)) = ''info''
   \<and> Config (snd (LoadConfig exUnmarshal exInitLogger exConfigMap exController))
       = snd (exUnmarshal exDocument exZeroConfig)
   \<and> fst (LoadConfig exUnmarshal exInitLogger exBrokenConfigMap exController) \<noteq> None
   \<and> Config (snd (LoadConfig exUnmarshal exInitLogger exBrokenConfigMap exController))
       = Config exController"
proof -
  have nokey: "Data exEmptyConfigMap ConfigFileKey = None"
    by (simp add: exEmptyConfigMap_def)
  from LoadConfig_error_leaves_decoded_Config
         [of exUnmarshal exInitLogger exEmptyConfigMap exController] nokey
  have first: "fst (LoadConfig exUnmarshal exInitLogger exEmptyConfigMap exController) \<noteq> None
     \<and> snd (LoadConfig exUnmarshal exInitLogger exEmptyConfigMap exController) = exController"
    by simp
  have key: "Data exConfigMap ConfigFileKey = Some exDocument"
    by (simp add: exConfigMap_def)
  have invalid: "\<not> validate (snd (exUnmarshal exDocument (Config exController)))"
    by (simp add: config_defs)
  from LoadConfig_error_leaves_decoded_Config
         [of exUnmarshal exInitLogger exConfigMap exController] key invalid
  have second: "fst (LoadConfig exUnmarshal exInitLogger exConfigMap exController) \<noteq> None
     \<and> logger (snd (LoadConfig exUnmarshal exInitLogger exConfigMap exController)) = ''info''
     \<and> Config (snd (LoadConfig exUnmarshal exInitLogger exConfigMap exController))
         = snd (exUnmarshal exDocument exZeroConfig)"
    by (simp add: exController_def)
  have key': "Data exBrokenConfigMap ConfigFileKey = Some ''{''"
    by (simp add: exBrokenConfigMap_def)
  have refused: "exUnmarshal ''{'' (Config exController)
                   = (Some (New ''invalid character''), Config exController)"
    by (simp add: exUnmarshal_def exDocument_def)
  from LoadConfig_error_leaves_decoded_Config
         [of exUnmarshal exInitLogger exBrokenConfigMap exController] key' refused
  have third: "fst (LoadConfig exUnmarshal exInitLogger exBrokenConfigMap exController) \<noteq> None
     \<and> Config (snd (LoadConfig exUnmarshal exInitLogger exBrokenConfigMap exController))
         = Config exController"
    by simp
  from first second third show ?thesis by blast
qed

section \<open>Paging the project list\<close>

text \<open>
  Where \<open>Start + Limit\<close> does not leave \<open>int64\<close>, \<open>ListProjects\<close> returns the total
  and the items from \<open>Start\<close> up to the smaller of \<open>Start + Limit\<close> and the length.
\<close>

lemma ListProjects_page:
  assumes "projectsList tenant = Inr items" and "length items < 2 ^ 63"
    and "0 \<le> sint (Start q)" and "0 \<le> sint (Limit q)"
    and "sint (Start q) + sint (Limit q) < 2 ^ 63"
  shows "ListProjects projectsList tenant q =
     Return (Inr (NewListResponse (of_nat (length items))
        (take (min (nat (sint (Start q)) + nat (sint (Limit q))) (length items) - nat (sint (Start q)))
              (drop (nat (sint (Start q))) items))))"
  using assms
  by (auto simp: ListProjects_def slice_def Let_def word_sle_eq word_sless_alt sint_size
        sint_add_small min_def nat_add_distrib)

text \<open>
  C10. The claim promises, for every \<open>Start \<ge> 0\<close> and \<open>Limit \<ge> 0\<close>, the items from
  \<open>Start\<close> to the smaller of \<open>Start + Limit\<close> and the length, with bounds inside the
  list. On a list of two projects with \<open>Start = 1\<close> and \<open>Limit = 2^63 - 1\<close> the sum
  wraps to \<open>-2^63\<close>, the test \<open>end > size\<close> fails, and the slice expression
  \<open>items[1:-2^63]\<close> panics; the claim's answer there is the second project with total 2.
\<close>

theorem ListProjects_limit_overflow_panics:
  "ListProjects (\<lambda>_. Inr [''alpha'', ''beta'']) ''tenant''
      \<lparr>Start = 1, Limit = 0x7FFFFFFFFFFFFFFF\<rparr>
     = Panic ''slice bounds out of range''
   \<and> (0::int) \<le> sint (1 :: int64) \<and> (0::int) \<le> sint (0x7FFFFFFFFFFFFFFF :: int64)
   \<and> sint ((1 :: int64) + 0x7FFFFFFFFFFFFFFF) = - (2 ^ 63)"
  by (simp add: ListProjects_def slice_def word_sle_eq word_sless_alt)

end
